theory Spec2Isabelle
  imports Main
begin

section \<open>Values and validators\<close>

text \<open>
  The schema of \<^verbatim>\<open>convex/schema.ts\<close> is a term built from the validator constructors of
  \<^verbatim>\<open>convex/values\<close>: \<^verbatim>\<open>v.string()\<close>, \<^verbatim>\<open>v.number()\<close>, \<^verbatim>\<open>v.boolean()\<close>, \<^verbatim>\<open>v.any()\<close>,
  \<^verbatim>\<open>v.literal(s)\<close>, \<^verbatim>\<open>v.id(table)\<close>, \<^verbatim>\<open>v.union(...)\<close>, \<^verbatim>\<open>v.optional(x)\<close>, \<^verbatim>\<open>v.array(x)\<close>
  and \<^verbatim>\<open>v.object({...})\<close>. The datatype below has one constructor for each, under the
  source's name; an object validator lists its fields in the order of the source.
\<close>

datatype validator =
    v_string
  | v_number
  | v_boolean
  | v_any
  | v_literal string
  | v_id string
  | v_union "validator list"
  | v_optional validator
  | v_array validator
  | v_object "(string \<times> validator) list"

text \<open>
  The values a document field can hold. The payload of a number (a 64-bit float in the
  backend) is kept abstract as the type parameter \<open>'n\<close>: no claim computes with it. An
  identifier is a string at run time that names a table and a row; \<open>Ident t k\<close> is the
  identifier of row \<open>k\<close> of table \<open>t\<close>, \<open>Str s\<close> any other string. An object is
  an association list read through \<^const>\<open>map_of\<close>.
\<close>

datatype 'n val =
    Null
  | Int64 int
  | Num 'n
  | Bool bool
  | Str string
  | Bytes string
  | Ident string nat
  | Arr "'n val list"
  | Obj "(string \<times> 'n val) list"

fun is_optional :: "validator \<Rightarrow> bool" where
  "is_optional (v_optional _) = True"
| "is_optional _ = False"

text \<open>
  Modelled from the spec: the meaning of the validator constructors, which is code of the
  \<^verbatim>\<open>convex/values\<close> package and not of this repository. The spec fixes it as "field
  presence/type and enumerated-literal membership": a field is required unless its
  validator is \<^verbatim>\<open>v.optional\<close>, a literal admits exactly its own string, a union admits
  what one of its members admits, an identifier validator admits the identifiers of its
  table, and an object admits no field it does not declare. An identifier is a string,
  so \<^verbatim>\<open>v.string()\<close> admits it too.
\<close>

fun conforms :: "validator \<Rightarrow> 'n val \<Rightarrow> bool" where
  "conforms v_string x = (case x of Str _ \<Rightarrow> True | Ident _ _ \<Rightarrow> True | _ \<Rightarrow> False)"
| "conforms v_number x = (case x of Num _ \<Rightarrow> True | _ \<Rightarrow> False)"
| "conforms v_boolean x = (case x of Bool _ \<Rightarrow> True | _ \<Rightarrow> False)"
| "conforms v_any x = True"
| "conforms (v_literal s) x = (x = Str s)"
| "conforms (v_id t) x = (case x of Ident t' _ \<Rightarrow> t' = t | _ \<Rightarrow> False)"
| "conforms (v_union vs) x = list_ex (\<lambda>v. conforms v x) vs"
| "conforms (v_optional v) x = conforms v x"
| "conforms (v_array v) x = (case x of Arr xs \<Rightarrow> list_all (conforms v) xs | _ \<Rightarrow> False)"
| "conforms (v_object fs) x =
     (case x of
        Obj kvs \<Rightarrow>
          list_all (\<lambda>(k, fv). case map_of kvs k of
                                 None \<Rightarrow> is_optional fv
                               | Some y \<Rightarrow> conforms fv y) fs
          \<and> list_all (\<lambda>(k, y). k \<in> set (map fst fs)) kvs
      | _ \<Rightarrow> False)"

section \<open>The schema of convex/schema.ts\<close>

subsection \<open>Enumerations\<close>

definition userRoles :: validator where
  "userRoles = v_union
     [v_literal ''PlatformAdmin'',
      v_literal ''TenantAdmin_Manager'',
      v_literal ''TenantAdmin_HR'',
      v_literal ''TenantAdmin_Sales'',
      v_literal ''TenantAdmin_Marketing'',
      v_literal ''TenantAdmin_Support'',
      v_literal ''TenantAdmin_Finance'',
      v_literal ''RegularUser'']"

definition transactionTypes :: validator where
  "transactionTypes = v_union
     [v_literal ''Deposit'',
      v_literal ''Withdrawal'',
      v_literal ''GameEntry'',
      v_literal ''GamePayout'',
      v_literal ''CommissionEarned'',
      v_literal ''ReferralBonus'']"

definition paymentRequestStatus :: validator where
  "paymentRequestStatus = v_union
     [v_literal ''Pending'',
      v_literal ''Verified'',
      v_literal ''Rejected'']"

definition gameStatus :: validator where
  "gameStatus = v_union
     [v_literal ''Pending'',
      v_literal ''Open'',
      v_literal ''Filling'',
      v_literal ''Full'',
      v_literal ''Active'',
      v_literal ''Completed'',
      v_literal ''Cancelled'']"

definition notificationChannels :: validator where
  "notificationChannels = v_union
     [v_literal ''InApp'',
      v_literal ''Telegram'',
      v_literal ''Email'']"

definition referralCampaignStatus :: validator where
  "referralCampaignStatus = v_union
     [v_literal ''Active'',
      v_literal ''Paused'',
      v_literal ''Completed'']"

subsection \<open>Tables\<close>

text \<open>
  \<^verbatim>\<open>defineTable({...})\<close> gives a table its fields; each \<^verbatim>\<open>.index(name, fields)\<close> of
  the method chain appends one index declaration. \<open>chain t [f, g]\<close> is \<^verbatim>\<open>t.f.g\<close>.
\<close>

record table =
  documentType :: "(string \<times> validator) list"
  indexes :: "(string \<times> string list) list"

definition defineTable :: "(string \<times> validator) list \<Rightarrow> table" where
  "defineTable fs = \<lparr>documentType = fs, indexes = []\<rparr>"

definition index :: "string \<Rightarrow> string list \<Rightarrow> table \<Rightarrow> table" where
  "index n fs t = t\<lparr>indexes := indexes t @ [(n, fs)]\<rparr>"

definition chain :: "table \<Rightarrow> (table \<Rightarrow> table) list \<Rightarrow> table" where
  "chain t fs = fold (\<lambda>f. f) fs t"

definition users :: table where
  "users = chain (defineTable
     [(''clerkId'', v_optional v_string),
      (''telegramId'', v_optional v_string),
      (''telegramUsername'', v_optional v_string),
      (''name'', v_string),
      (''email'', v_optional v_string),
      (''passwordHash'', v_optional v_string),
      (''role'', userRoles),
      (''tenantId'', v_optional (v_id ''tenants'')),
      (''profilePictureUrl'', v_optional v_string),
      (''lastLogin'', v_number),
      (''isActive'', v_boolean),
      (''onboardingCompleted'', v_boolean),
      (''telegramNotificationsEnabled'', v_boolean),
      (''inAppNotificationsEnabled'', v_boolean),
      (''referralCode'', v_string),
      (''referredBy'', v_optional v_string)])
     [index ''by_clerkId'' [''clerkId''],
      index ''by_telegramId'' [''telegramId''],
      index ''by_email'' [''email''],
      index ''by_role'' [''role''],
      index ''by_tenantId'' [''tenantId'']]"

definition tenants :: table where
  "tenants = chain (defineTable
     [(''name'', v_string),
      (''status'', v_union [v_literal ''Active'', v_literal ''Suspended'', v_literal ''Pending'']),
      (''managerEmail'', v_string),
      (''settings'', v_object
         [(''commissionRate'', v_number),
          (''paymentProvider'', v_optional v_string),
          (''paymentProviderConfig'', v_optional v_any)])])
     [index ''by_name'' [''name''],
      index ''by_status'' [''status'']]"

definition employees :: table where
  "employees = chain (defineTable
     [(''userId'', v_id ''users''),
      (''tenantId'', v_id ''tenants''),
      (''role'', userRoles),
      (''isActive'', v_boolean)])
     [index ''by_userId'' [''userId''],
      index ''by_tenantId'' [''tenantId''],
      index ''by_tenantId_userId'' [''tenantId'', ''userId''],
      index ''by_tenantId_role'' [''tenantId'', ''role'']]"

definition games :: table where
  "games = chain (defineTable
     [(''tenantId'', v_id ''tenants''),
      (''name'', v_string),
      (''entryFee'', v_number),
      (''maxPlayers'', v_number),
      (''description'', v_optional v_string),
      (''status'', gameStatus),
      (''currentPlayers'', v_number),
      (''participants'', v_array (v_object
         [(''userId'', v_id ''users''),
          (''selectedNumber'', v_number),
          (''joinedAt'', v_number),
          (''isWinner'', v_optional v_boolean)])),
      (''startTime'', v_optional v_number),
      (''endTime'', v_optional v_number),
      (''winnerId'', v_optional (v_id ''users'')),
      (''winningNumber'', v_optional v_number),
      (''commissionEarned'', v_optional v_number)])
     [index ''by_tenantId'' [''tenantId''],
      index ''by_status'' [''status''],
      index ''by_tenantId_status'' [''tenantId'', ''status'']]"

definition gameTemplates :: table where
  "gameTemplates = chain (defineTable
     [(''tenantId'', v_id ''tenants''),
      (''name'', v_string),
      (''defaultEntryFee'', v_number),
      (''defaultMaxPlayers'', v_number),
      (''description'', v_optional v_string)])
     [index ''by_tenantId'' [''tenantId'']]"

definition wallets :: table where
  "wallets = chain (defineTable
     [(''ownerId'', v_id ''users''),
      (''tenantId'', v_optional (v_id ''tenants'')),
      (''balance'', v_number),
      (''type'', v_union [v_literal ''User'', v_literal ''Tenant'', v_literal ''Platform''])])
     [index ''by_ownerId'' [''ownerId''],
      index ''by_tenantId'' [''tenantId''],
      index ''by_type'' [''type''],
      index ''by_ownerId_type'' [''ownerId'', ''type'']]"

definition transactions :: table where
  "transactions = chain (defineTable
     [(''userId'', v_optional (v_id ''users'')),
      (''tenantId'', v_optional (v_id ''tenants'')),
      (''type'', transactionTypes),
      (''amount'', v_number),
      (''description'', v_string),
      (''status'', v_union [v_literal ''Pending'', v_literal ''Completed'',
                            v_literal ''Failed'', v_literal ''Reversed'']),
      (''relatedGameId'', v_optional (v_id ''games'')),
      (''relatedPaymentId'', v_optional (v_id ''payments'')),
      (''relatedTransactionId'', v_optional (v_id ''transactions''))])
     [index ''by_userId'' [''userId''],
      index ''by_tenantId'' [''tenantId''],
      index ''by_type'' [''type''],
      index ''by_status'' [''status''],
      index ''by_userId_type'' [''userId'', ''type''],
      index ''by_tenantId_type'' [''tenantId'', ''type'']]"

definition payments :: table where
  "payments = chain (defineTable
     [(''userId'', v_id ''users''),
      (''tenantId'', v_id ''tenants''),
      (''amount'', v_number),
      (''screenshotId'', v_id ''_storage''),
      (''status'', paymentRequestStatus),
      (''paymentMethod'', v_string),
      (''referenceCode'', v_string),
      (''verificationNotes'', v_optional v_string),
      (''verifiedBy'', v_optional (v_id ''users'')),
      (''verifiedAt'', v_optional v_number)])
     [index ''by_userId'' [''userId''],
      index ''by_tenantId'' [''tenantId''],
      index ''by_status'' [''status''],
      index ''by_tenantId_status'' [''tenantId'', ''status'']]"

definition notifications :: table where
  "notifications = chain (defineTable
     [(''userId'', v_id ''users''),
      (''tenantId'', v_optional (v_id ''tenants'')),
      (''type'', v_union [v_literal ''GameUpdate'', v_literal ''Wallet'',
                          v_literal ''System'', v_literal ''Marketing'']),
      (''title'', v_string),
      (''message'', v_string),
      (''isRead'', v_boolean),
      (''channel'', notificationChannels),
      (''relatedEntityId'', v_optional (v_id ''games''))])
     [index ''by_userId'' [''userId''],
      index ''by_tenantId'' [''tenantId''],
      index ''by_userId_isRead'' [''userId'', ''isRead''],
      index ''by_tenantId_isRead'' [''tenantId'', ''isRead'']]"

definition auditLogs :: table where
  "auditLogs = chain (defineTable
     [(''actorId'', v_id ''users''),
      (''actorRole'', userRoles),
      (''tenantId'', v_optional (v_id ''tenants'')),
      (''actionType'', v_string),
      (''resourceType'', v_string),
      (''resourceId'', v_optional (v_id ''any'')),
      (''details'', v_any)])
     [index ''by_actorId'' [''actorId''],
      index ''by_tenantId'' [''tenantId''],
      index ''by_actionType'' [''actionType''],
      index ''by_resourceId'' [''resourceId''],
      index ''by_creationTime'' [''_creationTime'']]"

definition platformSettings :: table where
  "platformSettings = chain (defineTable
     [(''key'', v_string),
      (''value'', v_any),
      (''description'', v_optional v_string)])
     [index ''by_key'' [''key'']]"

definition commissionOverrides :: table where
  "commissionOverrides = chain (defineTable
     [(''tenantId'', v_id ''tenants''),
      (''rate'', v_number),
      (''startDate'', v_number),
      (''endDate'', v_optional v_number)])
     [index ''by_tenantId'' [''tenantId''],
      index ''by_startDate'' [''startDate'']]"

definition referralCampaigns :: table where
  "referralCampaigns = chain (defineTable
     [(''tenantId'', v_id ''tenants''),
      (''name'', v_string),
      (''code'', v_string),
      (''status'', referralCampaignStatus),
      (''rewardType'', v_union [v_literal ''FlatAmount'', v_literal ''Percentage'']),
      (''rewardValue'', v_number),
      (''minReferredDeposit'', v_optional v_number),
      (''startDate'', v_number),
      (''endDate'', v_optional v_number),
      (''description'', v_optional v_string)])
     [index ''by_tenantId'' [''tenantId''],
      index ''by_code'' [''code'']]"

definition supportTickets :: table where
  "supportTickets = chain (defineTable
     [(''userId'', v_id ''users''),
      (''tenantId'', v_optional (v_id ''tenants'')),
      (''subject'', v_string),
      (''message'', v_string),
      (''status'', v_union [v_literal ''Open'', v_literal ''Pending'', v_literal ''Closed'']),
      (''priority'', v_union [v_literal ''Low'', v_literal ''Medium'', v_literal ''High'']),
      (''assignedTo'', v_optional (v_id ''users'')),
      (''replies'', v_array (v_object
         [(''userId'', v_id ''users''),
          (''message'', v_string),
          (''timestamp'', v_number)])),
      (''attachments'', v_optional (v_array (v_id ''_storage'')))])
     [index ''by_userId'' [''userId''],
      index ''by_tenantId'' [''tenantId''],
      index ''by_status'' [''status''],
      index ''by_assignedTo'' [''assignedTo'']]"

text \<open>The default export: \<^verbatim>\<open>defineSchema({...})\<close>, the tables by name.\<close>

definition defineSchema :: "(string \<times> table) list \<Rightarrow> (string \<times> table) list" where
  "defineSchema ts = ts"

definition schema :: "(string \<times> table) list" where
  "schema = defineSchema
     [(''users'', users),
      (''tenants'', tenants),
      (''employees'', employees),
      (''games'', games),
      (''gameTemplates'', gameTemplates),
      (''wallets'', wallets),
      (''transactions'', transactions),
      (''payments'', payments),
      (''notifications'', notifications),
      (''auditLogs'', auditLogs),
      (''platformSettings'', platformSettings),
      (''commissionOverrides'', commissionOverrides),
      (''referralCampaigns'', referralCampaigns),
      (''supportTickets'', supportTickets)]"

text \<open>
  Schema validation of a record written to a table: the record, as an object, conforms
  to the object validator of the table's fields. The schema holds validators for its
  own tables only: it has nothing to check a write to any other table against, and
  rejects none.
\<close>

definition validates :: "(string \<times> table) list \<Rightarrow> string \<Rightarrow> (string \<times> 'n val) list \<Rightarrow> bool" where
  "validates sch t obj =
     (case map_of sch t of
        None \<Rightarrow> True
      | Some td \<Rightarrow> conforms (v_object (documentType td)) (Obj obj))"

section \<open>The store behind the schema\<close>

text \<open>
  Modelled from the spec: the hosted backend that stores the tables, which is not code
  of this repository. The spec describes each record as having "a generated identity and
  creation timestamp, owned by the hosted backend", a write as rejected "with a
  validation error" when it violates the field shapes, and an index as an
  "equality-lookup" by "its exact key tuple". A stored document carries the two system
  fields \<^verbatim>\<open>_id\<close> and \<^verbatim>\<open>_creationTime\<close> beside the fields that were written; a table is
  the list of its documents in insertion order; a new document gets the next unused row
  number of its table.
\<close>

record 'n document =
  doc_id :: "string \<times> nat"
  creationTime :: 'n
  body :: "(string \<times> 'n val) list"

type_synonym 'n database = "string \<Rightarrow> 'n document list"

datatype error = ValidationError | IndexNotFound

definition empty_db :: "'n database" where
  "empty_db = (\<lambda>t. [])"

text \<open>Reading a field of a stored document; an absent field reads as \<open>None\<close>.\<close>

definition get_field :: "'n document \<Rightarrow> string \<Rightarrow> 'n val option" where
  "get_field d f =
     (if f = ''_id'' then Some (Ident (fst (doc_id d)) (snd (doc_id d)))
      else if f = ''_creationTime'' then Some (Num (creationTime d))
      else map_of (body d) f)"

definition db_insert ::
  "(string \<times> table) list \<Rightarrow> 'n database \<Rightarrow> string \<Rightarrow> 'n \<Rightarrow> (string \<times> 'n val) list
     \<Rightarrow> error + ('n database \<times> 'n val)" where
  "db_insert sch db t now obj =
     (if validates sch t obj
      then Inr (db(t := db t @ [\<lparr>doc_id = (t, length (db t)), creationTime = now, body = obj\<rparr>]),
                Ident t (length (db t)))
      else Inl ValidationError)"

fun db_get :: "'n database \<Rightarrow> 'n val \<Rightarrow> 'n document option" where
  "db_get db (Ident t k) = find (\<lambda>d. doc_id d = (t, k)) (db t)"
| "db_get db _ = None"

text \<open>
  An equality lookup through a declared index: the documents of the table whose index
  fields, in the index's order, equal the key tuple component by component. A key
  component \<open>None\<close> asks for the field to be absent.
\<close>

definition withIndex ::
  "(string \<times> table) list \<Rightarrow> 'n database \<Rightarrow> string \<Rightarrow> string \<Rightarrow> 'n val option list
     \<Rightarrow> error + 'n document list" where
  "withIndex sch db t ix key =
     (case map_of sch t of
        None \<Rightarrow> Inl IndexNotFound
      | Some td \<Rightarrow>
          (case map_of (indexes td) ix of
             None \<Rightarrow> Inl IndexNotFound
           | Some fs \<Rightarrow> Inr (filter (\<lambda>d. map (get_field d) fs = key) (db t))))"

text \<open>
  The invariant of the store: the documents of a table carry the table's name and their
  row numbers in order. It holds of the empty store and every insertion keeps it.
\<close>

definition wf_db :: "'n database \<Rightarrow> bool" where
  "wf_db db = (\<forall>t. map doc_id (db t) = map (Pair t) [0..<length (db t)])"

section \<open>The root layout of app/layout.tsx\<close>

text \<open>
  A rendered tree: an element with its tag, its attributes and its child nodes, or the
  content passed in as \<^verbatim>\<open>children\<close>, which stays opaque.
\<close>

datatype 'a node =
    Element string "(string \<times> string) list" "'a node list"
  | Content 'a

text \<open>
  \<^verbatim>\<open>RootLayout({children})\<close>. The class name \<^verbatim>\<open>inter.className\<close> comes from the font
  loader of \<^verbatim>\<open>next/font/google\<close> and is a parameter.
\<close>

definition RootLayout :: "string \<Rightarrow> 'a \<Rightarrow> 'a node" where
  "RootLayout inter_className children =
     Element ''html'' [(''lang'', ''en'')]
       [Element ''body'' [(''className'', inter_className)]
          [Element ''ConvexClientProvider'' []
             [Element ''ToastProvider'' [] [],
              Content children]]]"

text \<open>
  Every piece of passed-in content of a tree, with the tags of the elements that enclose
  it, outermost first.
\<close>

fun scopes :: "'a node \<Rightarrow> (string list \<times> 'a) list" where
  "scopes (Content c) = [([], c)]"
| "scopes (Element tag attrs kids) =
     map (\<lambda>(p, c). (tag # p, c)) (concat (map scopes kids))"

text \<open>All elements of a tree, parents before children.\<close>

fun elements :: "'a node \<Rightarrow> 'a node list" where
  "elements (Content c) = []"
| "elements (Element tag attrs kids) =
     Element tag attrs kids # concat (map elements kids)"

fun tag_of :: "'a node \<Rightarrow> string" where
  "tag_of (Element tag attrs kids) = tag"
| "tag_of (Content c) = []"

text \<open>The child lists of the elements with the given tag, parents before children.\<close>

fun kids_of :: "string \<Rightarrow> 'a node \<Rightarrow> 'a node list list" where
  "kids_of t (Content c) = []"
| "kids_of t (Element tag attrs kids) =
     (if tag = t then [kids] else []) @ concat (map (kids_of t) kids)"

text \<open>The content of a tree lies inside an element with the given tag.\<close>

definition mounted_inside :: "string \<Rightarrow> 'a node \<Rightarrow> bool" where
  "mounted_inside tag n = (scopes n \<noteq> [] \<and> list_all (\<lambda>(p, c). tag \<in> set p) (scopes n))"

subsection \<open>Page metadata\<close>

text \<open>
  \<^verbatim>\<open>siteConfig\<close> is imported from \<^verbatim>\<open>@/constants\<close>, which is not among the sources: the
  metadata object is a function of it.
\<close>

record siteConfig =
  name :: string
  description :: string

record title_t =
  title_default :: string
  title_template :: string

record icons_t =
  icon :: string

record Metadata =
  title :: title_t
  description :: string
  icons :: icons_t

definition metadata :: "siteConfig \<Rightarrow> Metadata" where
  "metadata cfg =
     \<lparr>title = \<lparr>title_default = name cfg, title_template = ''%s | '' @ name cfg\<rparr>,
      description = siteConfig.description cfg,
      icons = \<lparr>icon = ''/favicon.ico''\<rparr>\<rparr>"

section \<open>Example records\<close>

text \<open>
  The scenario of the spec: a tenant with status "Pending", a regular user of that
  tenant, and a game of that tenant with status "Open" and no participants, each with
  its optional fields left out. Numbers are integers here.
\<close>

definition tenant_pending :: "(string \<times> int val) list" where
  "tenant_pending =
     [(''name'', Str ''Acme''),
      (''status'', Str ''Pending''),
      (''managerEmail'', Str ''manager@acme.test''),
      (''settings'', Obj [(''commissionRate'', Num 5)])]"

definition user_regular :: "(string \<times> int val) list" where
  "user_regular =
     [(''name'', Str ''Abebe''),
      (''role'', Str ''RegularUser''),
      (''tenantId'', Ident ''tenants'' 0),
      (''lastLogin'', Num 1000),
      (''isActive'', Bool True),
      (''onboardingCompleted'', Bool False),
      (''telegramNotificationsEnabled'', Bool True),
      (''inAppNotificationsEnabled'', Bool True),
      (''referralCode'', Str ''REF1'')]"

definition game_open :: "(string \<times> int val) list" where
  "game_open =
     [(''tenantId'', Ident ''tenants'' 0),
      (''name'', Str ''Round 1''),
      (''entryFee'', Num 500),
      (''maxPlayers'', Num 10),
      (''status'', Str ''Open''),
      (''currentPlayers'', Num 0),
      (''participants'', Arr [])]"

text \<open>A second user, with another name and the referral code of the first.\<close>

definition user_same_code :: "(string \<times> int val) list" where
  "user_same_code =
     [(''name'', Str ''Kebede''),
      (''role'', Str ''RegularUser''),
      (''lastLogin'', Num 2000),
      (''isActive'', Bool True),
      (''onboardingCompleted'', Bool True),
      (''telegramNotificationsEnabled'', Bool False),
      (''inAppNotificationsEnabled'', Bool True),
      (''referralCode'', Str ''REF1'')]"

text \<open>Two referral campaigns with the same code; the tenant they name need not exist.\<close>

definition campaign_a :: "(string \<times> int val) list" where
  "campaign_a =
     [(''tenantId'', Ident ''tenants'' 0),
      (''name'', Str ''Spring''),
      (''code'', Str ''WELCOME''),
      (''status'', Str ''Active''),
      (''rewardType'', Str ''FlatAmount''),
      (''rewardValue'', Num 500),
      (''startDate'', Num 1000)]"

definition campaign_b :: "(string \<times> int val) list" where
  "campaign_b =
     [(''tenantId'', Ident ''tenants'' 41),
      (''name'', Str ''Autumn''),
      (''code'', Str ''WELCOME''),
      (''status'', Str ''Paused''),
      (''rewardType'', Str ''Percentage''),
      (''rewardValue'', Num 5),
      (''startDate'', Num 2000)]"

text \<open>
  A wallet of type "Tenant" with a user as its owner and no tenant, and the same wallet
  scoped to a tenant with no owner.
\<close>

definition wallet_tenant_owned :: "(string \<times> int val) list" where
  "wallet_tenant_owned =
     [(''ownerId'', Ident ''users'' 0),
      (''balance'', Num 0),
      (''type'', Str ''Tenant'')]"

definition wallet_tenant_scoped :: "(string \<times> int val) list" where
  "wallet_tenant_scoped =
     [(''tenantId'', Ident ''tenants'' 0),
      (''balance'', Num 0),
      (''type'', Str ''Tenant'')]"

text \<open>A wallet of type "User" with both an owner and a tenant.\<close>

definition wallet_user :: "(string \<times> int val) list" where
  "wallet_user =
     [(''ownerId'', Ident ''users'' 0),
      (''tenantId'', Ident ''tenants'' 0),
      (''balance'', Num 2500),
      (''type'', Str ''User'')]"

text \<open>A user whose role is none of the enumerated literals.\<close>

definition user_unknown_role :: "(string \<times> int val) list" where
  "user_unknown_role =
     [(''name'', Str ''Guest''),
      (''role'', Str ''Guest''),
      (''lastLogin'', Num 1000),
      (''isActive'', Bool True),
      (''onboardingCompleted'', Bool False),
      (''telegramNotificationsEnabled'', Bool True),
      (''inAppNotificationsEnabled'', Bool True),
      (''referralCode'', Str ''REF2'')]"

text \<open>An employee whose role is not a tenant-admin role.\<close>

definition employee_regular :: "(string \<times> int val) list" where
  "employee_regular =
     [(''userId'', Ident ''users'' 0),
      (''tenantId'', Ident ''tenants'' 0),
      (''role'', Str ''RegularUser''),
      (''isActive'', Bool True)]"

text \<open>A transaction that names neither a user nor a tenant, with a negative amount.\<close>

definition transaction_unlinked :: "(string \<times> int val) list" where
  "transaction_unlinked =
     [(''type'', Str ''Withdrawal''),
      (''amount'', Num (- 500)),
      (''description'', Str ''cash out''),
      (''status'', Str ''Pending'')]"

text \<open>A notification linked to a game, and the same notification linked to a transaction.\<close>

definition notification_game :: "(string \<times> int val) list" where
  "notification_game =
     [(''userId'', Ident ''users'' 0),
      (''type'', Str ''GameUpdate''),
      (''title'', Str ''Game full''),
      (''message'', Str ''Your game is about to start''),
      (''isRead'', Bool False),
      (''channel'', Str ''InApp''),
      (''relatedEntityId'', Ident ''games'' 0)]"

definition notification_transaction :: "(string \<times> int val) list" where
  "notification_transaction =
     [(''userId'', Ident ''users'' 0),
      (''type'', Str ''Wallet''),
      (''title'', Str ''Deposit received''),
      (''message'', Str ''Your deposit was verified''),
      (''isRead'', Bool False),
      (''channel'', Str ''InApp''),
      (''relatedEntityId'', Ident ''transactions'' 0)]"

section \<open>Facts about the schema\<close>

subsection \<open>Tables, fields and indexes\<close>

lemmas table_defs = chain_def defineTable_def index_def

lemma schema_users: "map_of schema ''users'' = Some users"
  by (simp add: schema_def defineSchema_def)

lemma schema_tenants: "map_of schema ''tenants'' = Some tenants"
  by (simp add: schema_def defineSchema_def)

lemma schema_employees: "map_of schema ''employees'' = Some employees"
  by (simp add: schema_def defineSchema_def)

lemma schema_games: "map_of schema ''games'' = Some games"
  by (simp add: schema_def defineSchema_def)

lemma schema_wallets: "map_of schema ''wallets'' = Some wallets"
  by (simp add: schema_def defineSchema_def)

lemma schema_transactions: "map_of schema ''transactions'' = Some transactions"
  by (simp add: schema_def defineSchema_def)

lemma schema_notifications: "map_of schema ''notifications'' = Some notifications"
  by (simp add: schema_def defineSchema_def)

lemma schema_referralCampaigns: "map_of schema ''referralCampaigns'' = Some referralCampaigns"
  by (simp add: schema_def defineSchema_def)

lemma users_fields:
  "documentType users =
     [(''clerkId'', v_optional v_string),
      (''telegramId'', v_optional v_string),
      (''telegramUsername'', v_optional v_string),
      (''name'', v_string),
      (''email'', v_optional v_string),
      (''passwordHash'', v_optional v_string),
      (''role'', userRoles),
      (''tenantId'', v_optional (v_id ''tenants'')),
      (''profilePictureUrl'', v_optional v_string),
      (''lastLogin'', v_number),
      (''isActive'', v_boolean),
      (''onboardingCompleted'', v_boolean),
      (''telegramNotificationsEnabled'', v_boolean),
      (''inAppNotificationsEnabled'', v_boolean),
      (''referralCode'', v_string),
      (''referredBy'', v_optional v_string)]"
  by (simp add: users_def table_defs)

lemma employees_fields:
  "documentType employees =
     [(''userId'', v_id ''users''),
      (''tenantId'', v_id ''tenants''),
      (''role'', userRoles),
      (''isActive'', v_boolean)]"
  by (simp add: employees_def table_defs)

lemma games_fields:
  "documentType games =
     [(''tenantId'', v_id ''tenants''),
      (''name'', v_string),
      (''entryFee'', v_number),
      (''maxPlayers'', v_number),
      (''description'', v_optional v_string),
      (''status'', gameStatus),
      (''currentPlayers'', v_number),
      (''participants'', v_array (v_object
         [(''userId'', v_id ''users''),
          (''selectedNumber'', v_number),
          (''joinedAt'', v_number),
          (''isWinner'', v_optional v_boolean)])),
      (''startTime'', v_optional v_number),
      (''endTime'', v_optional v_number),
      (''winnerId'', v_optional (v_id ''users'')),
      (''winningNumber'', v_optional v_number),
      (''commissionEarned'', v_optional v_number)]"
  by (simp add: games_def table_defs)

lemma wallets_fields:
  "documentType wallets =
     [(''ownerId'', v_id ''users''),
      (''tenantId'', v_optional (v_id ''tenants'')),
      (''balance'', v_number),
      (''type'', v_union [v_literal ''User'', v_literal ''Tenant'', v_literal ''Platform''])]"
  by (simp add: wallets_def table_defs)

lemma transactions_fields:
  "documentType transactions =
     [(''userId'', v_optional (v_id ''users'')),
      (''tenantId'', v_optional (v_id ''tenants'')),
      (''type'', transactionTypes),
      (''amount'', v_number),
      (''description'', v_string),
      (''status'', v_union [v_literal ''Pending'', v_literal ''Completed'',
                            v_literal ''Failed'', v_literal ''Reversed'']),
      (''relatedGameId'', v_optional (v_id ''games'')),
      (''relatedPaymentId'', v_optional (v_id ''payments'')),
      (''relatedTransactionId'', v_optional (v_id ''transactions''))]"
  by (simp add: transactions_def table_defs)

lemma notifications_fields:
  "documentType notifications =
     [(''userId'', v_id ''users''),
      (''tenantId'', v_optional (v_id ''tenants'')),
      (''type'', v_union [v_literal ''GameUpdate'', v_literal ''Wallet'',
                          v_literal ''System'', v_literal ''Marketing'']),
      (''title'', v_string),
      (''message'', v_string),
      (''isRead'', v_boolean),
      (''channel'', notificationChannels),
      (''relatedEntityId'', v_optional (v_id ''games''))]"
  by (simp add: notifications_def table_defs)

lemma referralCampaigns_fields:
  "documentType referralCampaigns =
     [(''tenantId'', v_id ''tenants''),
      (''name'', v_string),
      (''code'', v_string),
      (''status'', referralCampaignStatus),
      (''rewardType'', v_union [v_literal ''FlatAmount'', v_literal ''Percentage'']),
      (''rewardValue'', v_number),
      (''minReferredDeposit'', v_optional v_number),
      (''startDate'', v_number),
      (''endDate'', v_optional v_number),
      (''description'', v_optional v_string)]"
  by (simp add: referralCampaigns_def table_defs)

lemma games_indexes:
  "indexes games =
     [(''by_tenantId'', [''tenantId'']),
      (''by_status'', [''status'']),
      (''by_tenantId_status'', [''tenantId'', ''status''])]"
  by (simp add: games_def table_defs)

lemma wallets_indexes:
  "indexes wallets =
     [(''by_ownerId'', [''ownerId'']),
      (''by_tenantId'', [''tenantId'']),
      (''by_type'', [''type'']),
      (''by_ownerId_type'', [''ownerId'', ''type''])]"
  by (simp add: wallets_def table_defs)

text \<open>No field of the schema has the name of a system field.\<close>

lemma schema_user_fields:
  "list_all (\<lambda>(t, td). list_all (\<lambda>(k, fv). k \<noteq> ''_id'' \<and> k \<noteq> ''_creationTime'')
      (documentType td)) schema"
  by (simp add: schema_def defineSchema_def table_defs
      users_def tenants_def employees_def games_def gameTemplates_def wallets_def
      transactions_def payments_def notifications_def auditLogs_def platformSettings_def
      commissionOverrides_def referralCampaigns_def supportTickets_def)

text \<open>Table names are distinct, and so are the index names of each table.\<close>

lemma schema_tables_distinct: "distinct (map fst schema)"
  by (simp add: schema_def defineSchema_def)

lemma schema_indexes_distinct:
  "list_all (\<lambda>(t, td). distinct (map fst (indexes td))) schema"
  by (simp add: schema_def defineSchema_def table_defs
      users_def tenants_def employees_def games_def gameTemplates_def wallets_def
      transactions_def payments_def notifications_def auditLogs_def platformSettings_def
      commissionOverrides_def referralCampaigns_def supportTickets_def)

lemma declared_index:
  assumes "(t, td) \<in> set schema" and "(ix, fs) \<in> set (indexes td)"
  shows "map_of schema t = Some td" and "map_of (indexes td) ix = Some fs"
proof -
  show "map_of schema t = Some td"
    using schema_tables_distinct assms(1) by (rule map_of_is_SomeI)
  have "distinct (map fst (indexes td))"
    using schema_indexes_distinct assms(1) unfolding list_all_iff by fastforce
  then show "map_of (indexes td) ix = Some fs"
    using assms(2) by (rule map_of_is_SomeI)
qed

subsection \<open>Conformance, field by field\<close>

lemma validates_conforms:
  "map_of sch t = Some td \<Longrightarrow>
     validates sch t obj = conforms (v_object (documentType td)) (Obj obj)"
  by (simp add: validates_def)

lemma conforms_id: "conforms (v_id t) x \<longleftrightarrow> (\<exists>k. x = Ident t k)"
  by (cases x) auto

lemma conforms_number: "conforms v_number x \<longleftrightarrow> (\<exists>n. x = Num n)"
  by (cases x) auto

lemma conforms_object_iff:
  "conforms (v_object fs) (Obj kvs) \<longleftrightarrow>
     list_all (\<lambda>(k, fv). case map_of kvs k of
                            None \<Rightarrow> is_optional fv
                          | Some y \<Rightarrow> conforms fv y) fs
     \<and> fst ` set kvs \<subseteq> fst ` set fs"
proof -
  have "list_all (\<lambda>(k, y). k \<in> set (map fst fs)) kvs \<longleftrightarrow> fst ` set kvs \<subseteq> fst ` set fs"
    unfolding list_all_iff by force
  then show ?thesis by simp
qed

lemma conforms_object_field:
  assumes "conforms (v_object fs) (Obj kvs)" and "(k, fv) \<in> set fs"
  shows "case map_of kvs k of None \<Rightarrow> is_optional fv | Some y \<Rightarrow> conforms fv y"
  using assms by (auto simp: list_all_iff)

lemma validates_field:
  assumes "validates sch t obj" and "map_of sch t = Some td"
    and "(k, fv) \<in> set (documentType td)"
  shows "case map_of obj k of None \<Rightarrow> is_optional fv | Some y \<Rightarrow> conforms fv y"
  using assms conforms_object_field [of "documentType td" obj k fv]
  by (simp add: validates_def)

lemma field_required:
  "\<not> is_optional fv \<Longrightarrow>
     (case m of None \<Rightarrow> is_optional fv | Some y \<Rightarrow> conforms fv y)
       \<longleftrightarrow> (\<exists>y. m = Some y \<and> conforms fv y)"
  by (cases m) auto

lemma field_optional:
  "(case m of None \<Rightarrow> is_optional (v_optional fv) | Some y \<Rightarrow> conforms (v_optional fv) y)
     \<longleftrightarrow> (m = None \<or> (\<exists>y. m = Some y \<and> conforms fv y))"
  by (cases m) auto

lemma field_optional_id:
  "(case m of None \<Rightarrow> is_optional (v_optional (v_id t))
            | Some y \<Rightarrow> conforms (v_optional (v_id t)) y)
     \<longleftrightarrow> (m = None \<or> (\<exists>k. m = Some (Ident t k)))"
  unfolding field_optional conforms_id by auto

lemma field_number:
  "(case m of None \<Rightarrow> is_optional v_number | Some y \<Rightarrow> conforms v_number y)
     \<longleftrightarrow> (\<exists>a. m = Some (Num a))"
  by (cases m) (auto simp: conforms_number simp del: conforms.simps(2))

lemma field_string:
  "(case m of None \<Rightarrow> is_optional v_string | Some y \<Rightarrow> conforms v_string y)
     \<longleftrightarrow> (\<exists>d. m = Some d \<and> conforms v_string d)"
  by (rule field_required) simp

lemma field_transactionTypes:
  "(case m of None \<Rightarrow> is_optional transactionTypes | Some y \<Rightarrow> conforms transactionTypes y)
     \<longleftrightarrow> m \<in> Some ` Str ` {''Deposit'', ''Withdrawal'', ''GameEntry'', ''GamePayout'',
                             ''CommissionEarned'', ''ReferralBonus''}"
  by (cases m) (auto simp: transactionTypes_def)

lemma field_transaction_status:
  "(case m of
      None \<Rightarrow> is_optional (v_union [v_literal ''Pending'', v_literal ''Completed'',
                                    v_literal ''Failed'', v_literal ''Reversed''])
    | Some y \<Rightarrow> conforms (v_union [v_literal ''Pending'', v_literal ''Completed'',
                                   v_literal ''Failed'', v_literal ''Reversed'']) y)
     \<longleftrightarrow> m \<in> Some ` Str ` {''Pending'', ''Completed'', ''Failed'', ''Reversed''}"
  by (cases m) auto

lemma conforms_userRoles:
  "conforms userRoles x \<longleftrightarrow>
     x \<in> Str ` {''PlatformAdmin'', ''TenantAdmin_Manager'', ''TenantAdmin_HR'',
               ''TenantAdmin_Sales'', ''TenantAdmin_Marketing'', ''TenantAdmin_Support'',
               ''TenantAdmin_Finance'', ''RegularUser''}"
  by (auto simp: userRoles_def)

lemma conforms_gameStatus:
  "conforms gameStatus x \<longleftrightarrow>
     x \<in> Str ` {''Pending'', ''Open'', ''Filling'', ''Full'', ''Active'', ''Completed'',
               ''Cancelled''}"
  by (auto simp: gameStatus_def)

lemma users_role_required:
  assumes "validates schema ''users'' u"
  shows "\<exists>r. map_of u ''role'' = Some r \<and> conforms userRoles r"
proof -
  have "(''role'', userRoles) \<in> set (documentType users)"
    by (simp add: users_fields)
  from validates_field [OF assms schema_users this] show ?thesis
    by (cases "map_of u ''role''") (simp_all add: userRoles_def)
qed

lemma games_status_required:
  assumes "validates schema ''games'' g"
  shows "\<exists>s. map_of g ''status'' = Some s \<and> conforms gameStatus s"
proof -
  have "(''status'', gameStatus) \<in> set (documentType games)"
    by (simp add: games_fields)
  from validates_field [OF assms schema_games this] show ?thesis
    by (cases "map_of g ''status''") (simp_all add: gameStatus_def)
qed

text \<open>
  Setting one declared field of an admitted record: the record stays admitted exactly
  when the new value conforms to the validator of that field.
\<close>

lemma conforms_object_Cons:
  assumes ok: "conforms (v_object fs) (Obj kvs)"
    and dist: "distinct (map fst fs)" and kf: "(k, fv) \<in> set fs"
  shows "conforms (v_object fs) (Obj ((k, x) # kvs)) \<longleftrightarrow> conforms fv x"
proof -
  have keys: "fst ` set kvs \<subseteq> fst ` set fs" and k: "k \<in> fst ` set fs"
    using ok kf unfolding conforms_object_iff by force+
  have other: "case map_of ((k, x) # kvs) k' of None \<Rightarrow> is_optional fv'
                 | Some y \<Rightarrow> conforms fv' y"
    if "(k', fv') \<in> set fs" and "k' \<noteq> k" for k' fv'
    using conforms_object_field [OF ok that(1)] that(2) by simp
  have same: "fv' = fv" if "(k, fv') \<in> set fs" for fv'
    using eq_key_imp_eq_value [OF dist that kf] .
  show ?thesis
  proof
    assume "conforms (v_object fs) (Obj ((k, x) # kvs))"
    from conforms_object_field [OF this kf] show "conforms fv x" by simp
  next
    assume c: "conforms fv x"
    have "list_all (\<lambda>(k', fv'). case map_of ((k, x) # kvs) k' of
                None \<Rightarrow> is_optional fv' | Some y \<Rightarrow> conforms fv' y) fs"
      unfolding list_all_iff
    proof (intro ballI, clarify)
      fix k' fv' assume m: "(k', fv') \<in> set fs"
      show "case map_of ((k, x) # kvs) k' of None \<Rightarrow> is_optional fv'
               | Some y \<Rightarrow> conforms fv' y"
      proof (cases "k' = k")
        case True
        with m same c show ?thesis by simp
      next
        case False
        with other m show ?thesis by blast
      qed
    qed
    moreover have "fst ` set ((k, x) # kvs) \<subseteq> fst ` set fs"
      using keys k by simp
    ultimately show "conforms (v_object fs) (Obj ((k, x) # kvs))"
      unfolding conforms_object_iff by simp
  qed
qed

lemma users_role_write:
  assumes "validates schema ''users'' u"
  shows "validates schema ''users'' ((''role'', x) # u) \<longleftrightarrow> conforms userRoles x"
proof -
  have d: "distinct (map fst (documentType users))" by (simp add: users_fields)
  have f: "(''role'', userRoles) \<in> set (documentType users)" by (simp add: users_fields)
  from assms have "conforms (v_object (documentType users)) (Obj u)"
    by (simp add: validates_conforms [OF schema_users])
  from conforms_object_Cons [OF this d f] show ?thesis
    by (simp add: validates_conforms [OF schema_users])
qed

lemma games_status_write:
  assumes "validates schema ''games'' g"
  shows "validates schema ''games'' ((''status'', x) # g) \<longleftrightarrow> conforms gameStatus x"
proof -
  have d: "distinct (map fst (documentType games))" by (simp add: games_fields)
  have f: "(''status'', gameStatus) \<in> set (documentType games)" by (simp add: games_fields)
  from assms have "conforms (v_object (documentType games)) (Obj g)"
    by (simp add: validates_conforms [OF schema_games])
  from conforms_object_Cons [OF this d f] show ?thesis
    by (simp add: validates_conforms [OF schema_games])
qed

subsection \<open>The example records against the schema\<close>

lemma tenant_pending_valid: "validates schema ''tenants'' tenant_pending"
  by (simp add: validates_conforms [OF schema_tenants] tenants_def table_defs
      tenant_pending_def)

lemma user_regular_valid: "validates schema ''users'' user_regular"
  by (simp add: validates_conforms [OF schema_users] users_fields user_regular_def
      userRoles_def)

lemma user_same_code_valid: "validates schema ''users'' user_same_code"
  by (simp add: validates_conforms [OF schema_users] users_fields user_same_code_def
      userRoles_def)

lemma game_open_valid: "validates schema ''games'' game_open"
  by (simp add: validates_conforms [OF schema_games] games_fields game_open_def
      gameStatus_def)

lemma campaign_a_valid: "validates schema ''referralCampaigns'' campaign_a"
  by (simp add: validates_conforms [OF schema_referralCampaigns] referralCampaigns_fields
      campaign_a_def referralCampaignStatus_def)

lemma campaign_b_valid: "validates schema ''referralCampaigns'' campaign_b"
  by (simp add: validates_conforms [OF schema_referralCampaigns] referralCampaigns_fields
      campaign_b_def referralCampaignStatus_def)

section \<open>Enumerations\<close>

text \<open>
  C2. The role of a users record is one of exactly 8 literals, and the status of a games
  record one of exactly 7: the validator \<^const>\<open>userRoles\<close> admits a value exactly when it
  is one of the eight role strings, \<^const>\<open>gameStatus\<close> exactly when it is one of the seven
  status strings, and a record that passes the validation of the users (games) table has
  a role (status) that its enumeration admits, so a write with a value outside the
  enumeration, or with none, fails. The validator of \<^verbatim>\<open>users.role\<close> is \<^const>\<open>userRoles\<close> and
  that of \<^verbatim>\<open>games.status\<close> is \<^const>\<open>gameStatus\<close>: an admitted users (games) record with
  its role (status) set to a value \<open>x\<close>, written \<open>(''role'', x) # u\<close>, is admitted exactly
  when \<open>x\<close> is one of the eight (seven) literals, so a write inside the set passes.
\<close>

theorem enumerated_role_and_gameStatus:
  fixes x :: "'n val" and u g :: "(string \<times> 'n val) list"
  shows
  "(conforms userRoles x \<longleftrightarrow>
      x \<in> Str ` {''PlatformAdmin'', ''TenantAdmin_Manager'', ''TenantAdmin_HR'',
                ''TenantAdmin_Sales'', ''TenantAdmin_Marketing'', ''TenantAdmin_Support'',
                ''TenantAdmin_Finance'', ''RegularUser''})
   \<and> card {''PlatformAdmin'', ''TenantAdmin_Manager'', ''TenantAdmin_HR'',
            ''TenantAdmin_Sales'', ''TenantAdmin_Marketing'', ''TenantAdmin_Support'',
            ''TenantAdmin_Finance'', ''RegularUser''} = 8
   \<and> (validates schema ''users'' u \<longrightarrow>
        (\<exists>r. map_of u ''role'' = Some r \<and> conforms userRoles r))
   \<and> (conforms gameStatus x \<longleftrightarrow>
        x \<in> Str ` {''Pending'', ''Open'', ''Filling'', ''Full'', ''Active'', ''Completed'',
                  ''Cancelled''})
   \<and> card {''Pending'', ''Open'', ''Filling'', ''Full'', ''Active'', ''Completed'',
            ''Cancelled''} = 7
   \<and> (validates schema ''games'' g \<longrightarrow>
        (\<exists>s. map_of g ''status'' = Some s \<and> conforms gameStatus s))
   \<and> map_of (documentType users) ''role'' = Some userRoles
   \<and> (validates schema ''users'' u \<longrightarrow>
        (validates schema ''users'' ((''role'', x) # u) \<longleftrightarrow>
           x \<in> Str ` {''PlatformAdmin'', ''TenantAdmin_Manager'', ''TenantAdmin_HR'',
                     ''TenantAdmin_Sales'', ''TenantAdmin_Marketing'', ''TenantAdmin_Support'',
                     ''TenantAdmin_Finance'', ''RegularUser''}))
   \<and> map_of (documentType games) ''status'' = Some gameStatus
   \<and> (validates schema ''games'' g \<longrightarrow>
        (validates schema ''games'' ((''status'', x) # g) \<longleftrightarrow>
           x \<in> Str ` {''Pending'', ''Open'', ''Filling'', ''Full'', ''Active'', ''Completed'',
                     ''Cancelled''}))"
proof (intro conjI impI)
  show "conforms userRoles x \<longleftrightarrow>
      x \<in> Str ` {''PlatformAdmin'', ''TenantAdmin_Manager'', ''TenantAdmin_HR'',
                ''TenantAdmin_Sales'', ''TenantAdmin_Marketing'', ''TenantAdmin_Support'',
                ''TenantAdmin_Finance'', ''RegularUser''}"
    by (rule conforms_userRoles)
  show "card {''PlatformAdmin'', ''TenantAdmin_Manager'', ''TenantAdmin_HR'',
            ''TenantAdmin_Sales'', ''TenantAdmin_Marketing'', ''TenantAdmin_Support'',
            ''TenantAdmin_Finance'', ''RegularUser''} = 8"
    by simp
  show "conforms gameStatus x \<longleftrightarrow>
        x \<in> Str ` {''Pending'', ''Open'', ''Filling'', ''Full'', ''Active'', ''Completed'',
                  ''Cancelled''}"
    by (rule conforms_gameStatus)
  show "card {''Pending'', ''Open'', ''Filling'', ''Full'', ''Active'', ''Completed'',
            ''Cancelled''} = 7"
    by simp
  show "map_of (documentType users) ''role'' = Some userRoles"
    by (simp add: users_fields)
  show "map_of (documentType games) ''status'' = Some gameStatus"
    by (simp add: games_fields)
next
  assume "validates schema ''users'' u"
  then show "\<exists>r. map_of u ''role'' = Some r \<and> conforms userRoles r"
    by (rule users_role_required)
next
  assume "validates schema ''games'' g"
  then show "\<exists>s. map_of g ''status'' = Some s \<and> conforms gameStatus s"
    by (rule games_status_required)
next
  assume "validates schema ''users'' u"
  then show "validates schema ''users'' ((''role'', x) # u) \<longleftrightarrow>
           x \<in> Str ` {''PlatformAdmin'', ''TenantAdmin_Manager'', ''TenantAdmin_HR'',
                     ''TenantAdmin_Sales'', ''TenantAdmin_Marketing'', ''TenantAdmin_Support'',
                     ''TenantAdmin_Finance'', ''RegularUser''}"
    unfolding conforms_userRoles [symmetric] by (rule users_role_write)
next
  assume "validates schema ''games'' g"
  then show "validates schema ''games'' ((''status'', x) # g) \<longleftrightarrow>
           x \<in> Str ` {''Pending'', ''Open'', ''Filling'', ''Full'', ''Active'', ''Completed'',
                     ''Cancelled''}"
    unfolding conforms_gameStatus [symmetric] by (rule games_status_write)
qed

theorem enumerated_role_and_gameStatus_witness:
  "validates schema ''users'' user_regular
   \<and> map_of user_regular ''role'' = Some (Str ''RegularUser'')
   \<and> conforms userRoles (Str ''RegularUser'' :: int val)
   \<and> \<not> conforms userRoles (Str ''Guest'' :: int val)
   \<and> \<not> validates schema ''users'' user_unknown_role
   \<and> validates schema ''games'' game_open
   \<and> map_of game_open ''status'' = Some (Str ''Open'')
   \<and> conforms gameStatus (Str ''Open'' :: int val)
   \<and> \<not> conforms gameStatus (Str ''Guest'' :: int val)
   \<and> validates schema ''users'' ((''role'', Str ''PlatformAdmin'') # user_regular)
   \<and> validates schema ''users'' ((''role'', Str ''TenantAdmin_Finance'') # user_regular)
   \<and> \<not> validates schema ''users'' ((''role'', Str ''Guest'') # user_regular)
   \<and> validates schema ''games'' ((''status'', Str ''Cancelled'') # game_open)
   \<and> validates schema ''games'' ((''status'', Str ''Pending'') # game_open)
   \<and> \<not> validates schema ''games'' ((''status'', Str ''Guest'') # game_open)"
proof -
  note ok = enumerated_role_and_gameStatus [of "Str ''RegularUser''" user_regular game_open]
  note bad = enumerated_role_and_gameStatus [of "Str ''Guest''" user_unknown_role game_open]
  note opn = enumerated_role_and_gameStatus [of "Str ''Open''" user_regular game_open]
  have 1: "conforms userRoles (Str ''RegularUser'' :: int val)"
    using ok [THEN conjunct1] by simp
  have 2: "\<not> conforms userRoles (Str ''Guest'' :: int val)"
    using bad [THEN conjunct1] by simp
  have 3: "\<not> validates schema ''users'' user_unknown_role"
  proof
    assume "validates schema ''users'' user_unknown_role"
    with bad [THEN conjunct2, THEN conjunct2, THEN conjunct1]
    have "\<exists>r. map_of user_unknown_role ''role'' = Some r \<and> conforms userRoles r"
      by (rule mp)
    then have "conforms userRoles (Str ''Guest'' :: int val)"
      by (simp add: user_unknown_role_def)
    with 2 show False by contradiction
  qed
  have 4: "conforms gameStatus (Str ''Open'' :: int val)"
    using opn [THEN conjunct2, THEN conjunct2, THEN conjunct2, THEN conjunct1] by simp
  have 5: "\<not> conforms gameStatus (Str ''Guest'' :: int val)"
    using bad [THEN conjunct2, THEN conjunct2, THEN conjunct2, THEN conjunct1] by simp
  have 6: "map_of user_regular ''role'' = Some (Str ''RegularUser'')"
    and 7: "map_of game_open ''status'' = Some (Str ''Open'')"
    by (simp_all add: user_regular_def game_open_def)
  have role: "validates schema ''users'' ((''role'', x) # user_regular) \<longleftrightarrow>
           x \<in> Str ` {''PlatformAdmin'', ''TenantAdmin_Manager'', ''TenantAdmin_HR'',
                     ''TenantAdmin_Sales'', ''TenantAdmin_Marketing'', ''TenantAdmin_Support'',
                     ''TenantAdmin_Finance'', ''RegularUser''}" for x :: "int val"
  proof -
    have "validates schema ''users'' user_regular \<longrightarrow>
        (validates schema ''users'' ((''role'', x) # user_regular) \<longleftrightarrow>
           x \<in> Str ` {''PlatformAdmin'', ''TenantAdmin_Manager'', ''TenantAdmin_HR'',
                     ''TenantAdmin_Sales'', ''TenantAdmin_Marketing'', ''TenantAdmin_Support'',
                     ''TenantAdmin_Finance'', ''RegularUser''})"
      using enumerated_role_and_gameStatus [of x user_regular game_open] by (elim conjE)
    then show ?thesis using user_regular_valid by (rule mp)
  qed
  have status: "validates schema ''games'' ((''status'', x) # game_open) \<longleftrightarrow>
           x \<in> Str ` {''Pending'', ''Open'', ''Filling'', ''Full'', ''Active'', ''Completed'',
                     ''Cancelled''}" for x :: "int val"
  proof -
    have "validates schema ''games'' game_open \<longrightarrow>
        (validates schema ''games'' ((''status'', x) # game_open) \<longleftrightarrow>
           x \<in> Str ` {''Pending'', ''Open'', ''Filling'', ''Full'', ''Active'', ''Completed'',
                     ''Cancelled''})"
      using enumerated_role_and_gameStatus [of x user_regular game_open] by (elim conjE)
    then show ?thesis using game_open_valid by (rule mp)
  qed
  have 8: "validates schema ''users'' ((''role'', Str ''PlatformAdmin'') # user_regular)"
    and 9: "validates schema ''users'' ((''role'', Str ''TenantAdmin_Finance'') # user_regular)"
    and 10: "\<not> validates schema ''users'' ((''role'', Str ''Guest'') # user_regular)"
    unfolding role by simp_all
  have 11: "validates schema ''games'' ((''status'', Str ''Cancelled'') # game_open)"
    and 12: "validates schema ''games'' ((''status'', Str ''Pending'') # game_open)"
    and 13: "\<not> validates schema ''games'' ((''status'', Str ''Guest'') # game_open)"
    unfolding status by simp_all
  show ?thesis
    using user_regular_valid game_open_valid 1 2 3 4 5 6 7 8 9 10 11 12 13 by (intro conjI)
qed

section \<open>Shapes of records\<close>

text \<open>
  C4, as the schema has it. A wallets record passes validation exactly when it has an
  \<^verbatim>\<open>ownerId\<close> that is an identifier of the users table, a \<^verbatim>\<open>tenantId\<close> that is absent or an
  identifier of the tenants table, a numeric \<^verbatim>\<open>balance\<close>, a \<^verbatim>\<open>type\<close> among "User", "Tenant"
  and "Platform", and no other field. So every wallet, of any type, names a user as its
  owner, and the type decides nothing about which of owner and tenant are present.
\<close>

theorem wallet_shape:
  fixes w :: "(string \<times> 'n val) list"
  shows "validates schema ''wallets'' w \<longleftrightarrow>
     (\<exists>k. map_of w ''ownerId'' = Some (Ident ''users'' k))
   \<and> (map_of w ''tenantId'' = None \<or> (\<exists>k. map_of w ''tenantId'' = Some (Ident ''tenants'' k)))
   \<and> (\<exists>b. map_of w ''balance'' = Some (Num b))
   \<and> map_of w ''type'' \<in> {Some (Str ''User''), Some (Str ''Tenant''), Some (Str ''Platform'')}
   \<and> fst ` set w \<subseteq> {''ownerId'', ''tenantId'', ''balance'', ''type''}"
  unfolding validates_conforms [OF schema_wallets] wallets_fields conforms_object_iff
  by (auto simp add: conforms_id conforms_number
        simp del: conforms.simps(2) conforms.simps(6) conforms.simps(10) split: option.splits)

theorem wallet_shape_witness:
  "validates schema ''wallets'' wallet_user
   \<and> map_of wallet_user ''ownerId'' = Some (Ident ''users'' 0)
   \<and> map_of wallet_user ''type'' = Some (Str ''User'')"
  using wallet_shape [of wallet_user] by (simp add: wallet_user_def)

text \<open>
  Against C4 as stated: a wallet of type "Tenant" that is keyed by a user owner and names
  no tenant is admitted, and the same wallet scoped to a tenant with no user owner is
  rejected.
\<close>

theorem tenant_wallet_keyed_by_owner:
  "validates schema ''wallets'' wallet_tenant_owned
   \<and> map_of wallet_tenant_owned ''type'' = Some (Str ''Tenant'')
   \<and> map_of wallet_tenant_owned ''ownerId'' = Some (Ident ''users'' 0)
   \<and> map_of wallet_tenant_owned ''tenantId'' = None
   \<and> \<not> validates schema ''wallets'' wallet_tenant_scoped"
  by (simp add: validates_conforms [OF schema_wallets] wallets_fields
      wallet_tenant_owned_def wallet_tenant_scoped_def)

text \<open>
  C5. The employees table takes its role from \<^const>\<open>userRoles\<close>, the enumeration of all
  eight roles: an employee record whose role is "RegularUser" passes validation.
\<close>

theorem employee_regular_admitted:
  "validates schema ''employees'' employee_regular
   \<and> map_of employee_regular ''role'' = Some (Str ''RegularUser'')"
  by (simp add: validates_conforms [OF schema_employees] employees_fields
      employee_regular_def userRoles_def)

text \<open>
  C6, as the schema has it. A transactions record passes validation exactly when its
  \<^verbatim>\<open>type\<close> is one of 6 literals, its \<^verbatim>\<open>status\<close> one of 4, its \<^verbatim>\<open>amount\<close> a number (of either
  sign), its \<^verbatim>\<open>description\<close> a string, and each of its links, to a user, a tenant, a game,
  a payment and another transaction, is absent or an identifier of the right table; it
  has no other field. The links to a user and a tenant are optional like the other three.
\<close>

theorem transaction_shape:
  fixes x :: "(string \<times> 'n val) list"
  shows "validates schema ''transactions'' x \<longleftrightarrow>
     (map_of x ''userId'' = None \<or> (\<exists>k. map_of x ''userId'' = Some (Ident ''users'' k)))
   \<and> (map_of x ''tenantId'' = None \<or> (\<exists>k. map_of x ''tenantId'' = Some (Ident ''tenants'' k)))
   \<and> map_of x ''type'' \<in> Some ` Str ` {''Deposit'', ''Withdrawal'', ''GameEntry'',
        ''GamePayout'', ''CommissionEarned'', ''ReferralBonus''}
   \<and> (\<exists>a. map_of x ''amount'' = Some (Num a))
   \<and> (\<exists>d. map_of x ''description'' = Some d \<and> conforms v_string d)
   \<and> map_of x ''status'' \<in> Some ` Str ` {''Pending'', ''Completed'', ''Failed'', ''Reversed''}
   \<and> (map_of x ''relatedGameId'' = None
        \<or> (\<exists>k. map_of x ''relatedGameId'' = Some (Ident ''games'' k)))
   \<and> (map_of x ''relatedPaymentId'' = None
        \<or> (\<exists>k. map_of x ''relatedPaymentId'' = Some (Ident ''payments'' k)))
   \<and> (map_of x ''relatedTransactionId'' = None
        \<or> (\<exists>k. map_of x ''relatedTransactionId'' = Some (Ident ''transactions'' k)))
   \<and> fst ` set x \<subseteq> {''userId'', ''tenantId'', ''type'', ''amount'', ''description'',
        ''status'', ''relatedGameId'', ''relatedPaymentId'', ''relatedTransactionId''}"
proof -
  have keys: "fst ` set (documentType transactions) =
      {''userId'', ''tenantId'', ''type'', ''amount'', ''description'',
        ''status'', ''relatedGameId'', ''relatedPaymentId'', ''relatedTransactionId''}"
    by (simp add: transactions_fields)
  show ?thesis
    unfolding validates_conforms [OF schema_transactions] conforms_object_iff keys
    unfolding transactions_fields
    by (simp only: list.pred_inject prod.case field_optional_id field_number field_string
          field_transactionTypes field_transaction_status simp_thms conj_assoc)
qed

theorem transaction_shape_witness:
  "validates schema ''transactions'' transaction_unlinked
   \<and> map_of transaction_unlinked ''amount'' = Some (Num (- 500))
   \<and> map_of transaction_unlinked ''relatedGameId'' = None"
  using transaction_shape [of transaction_unlinked] by (simp add: transaction_unlinked_def)

text \<open>
  Against C6 as stated: a transaction that references neither a user nor a tenant is
  admitted.
\<close>

theorem transaction_without_user_and_tenant:
  "validates schema ''transactions'' transaction_unlinked
   \<and> map_of transaction_unlinked ''userId'' = None
   \<and> map_of transaction_unlinked ''tenantId'' = None"
  by (simp add: validates_conforms [OF schema_transactions] transactions_fields
      transaction_unlinked_def transactionTypes_def)

text \<open>
  C10. In a notifications record that passes validation, \<^verbatim>\<open>relatedEntityId\<close> is absent or
  an identifier of the games table: a notification whose link is an identifier of any
  other table, the transactions table included, is not admitted.
\<close>

theorem notification_link_is_game:
  fixes n :: "(string \<times> 'n val) list"
  assumes "validates schema ''notifications'' n"
  shows "map_of n ''relatedEntityId'' = None
     \<or> (\<exists>k. map_of n ''relatedEntityId'' = Some (Ident ''games'' k))"
proof -
  have "(''relatedEntityId'', v_optional (v_id ''games'')) \<in> set (documentType notifications)"
    by (simp add: notifications_fields)
  from validates_field [OF assms schema_notifications this]
  show ?thesis by (auto simp: conforms_id simp del: conforms.simps(6) split: option.splits)
qed

theorem notification_link_is_game_witness:
  "validates schema ''notifications'' notification_game
   \<and> map_of notification_game ''relatedEntityId'' = Some (Ident ''games'' 0)
   \<and> \<not> validates schema ''notifications'' notification_transaction"
proof -
  have v: "validates schema ''notifications'' notification_game"
    by (simp add: validates_conforms [OF schema_notifications] notifications_fields
        notification_game_def notificationChannels_def)
  have "map_of notification_game ''relatedEntityId'' = Some (Ident ''games'' 0)"
    using notification_link_is_game [OF v] by (simp add: notification_game_def)
  moreover have "\<not> validates schema ''notifications'' notification_transaction"
    using notification_link_is_game [of notification_transaction]
    by (auto simp: notification_transaction_def)
  ultimately show ?thesis using v by simp
qed

text \<open>
  C8. Validation looks at one record alone. Two user records that differ in their names
  and carry the same \<^verbatim>\<open>referralCode\<close> both pass the validation of the users table, and two
  referral campaigns that differ in their names and carry the same \<^verbatim>\<open>code\<close> both pass the
  validation of the referralCampaigns table, whatever tenants exist.
\<close>

theorem duplicate_codes_admitted:
  "map_of user_regular ''name'' \<noteq> map_of user_same_code ''name''
   \<and> map_of user_regular ''referralCode'' = map_of user_same_code ''referralCode''
   \<and> validates schema ''users'' user_regular
   \<and> validates schema ''users'' user_same_code
   \<and> map_of campaign_a ''name'' \<noteq> map_of campaign_b ''name''
   \<and> map_of campaign_a ''code'' = map_of campaign_b ''code''
   \<and> validates schema ''referralCampaigns'' campaign_a
   \<and> validates schema ''referralCampaigns'' campaign_b"
  using user_regular_valid user_same_code_valid campaign_a_valid campaign_b_valid
  by (simp add: user_regular_def user_same_code_def campaign_a_def campaign_b_def)

section \<open>The root layout\<close>

text \<open>
  C7, as the layout has it. Whatever the children are, they are mounted once, inside the
  \<^verbatim>\<open>html\<close>, \<^verbatim>\<open>body\<close> and \<^verbatim>\<open>ConvexClientProvider\<close> elements and no other; the tree has one
  \<^verbatim>\<open>ToastProvider\<close> element, which has no child. The tree has one \<^verbatim>\<open>ConvexClientProvider\<close>
  element, and its children are exactly the \<^verbatim>\<open>ToastProvider\<close> element followed by the
  passed-in children: the toast provider stands beside the children inside the
  backend-client provider, not around them.
\<close>

theorem root_layout_scopes:
  "scopes (RootLayout cls c) = [([''html'', ''body'', ''ConvexClientProvider''], c)]
   \<and> filter (\<lambda>e. tag_of e = ''ToastProvider'') (elements (RootLayout cls c))
       = [Element ''ToastProvider'' [] []]
   \<and> mounted_inside ''ConvexClientProvider'' (RootLayout cls c)
   \<and> \<not> mounted_inside ''ToastProvider'' (RootLayout cls c)
   \<and> kids_of ''ConvexClientProvider'' (RootLayout cls c)
       = [[Element ''ToastProvider'' [] [], Content c]]
   \<and> kids_of ''ToastProvider'' (RootLayout cls c) = [[]]"
  by (simp add: RootLayout_def mounted_inside_def)

theorem root_layout_scopes_witness:
  "scopes (RootLayout ''inter'' ''page'')
     = [([''html'', ''body'', ''ConvexClientProvider''], ''page'')]
   \<and> kids_of ''ConvexClientProvider'' (RootLayout ''inter'' ''page'')
       = [[Element ''ToastProvider'' [] [], Content ''page'']]"
  using root_layout_scopes [of "''inter''" "''page''"] by simp

text \<open>
  Against C7 as stated: the children are inside the backend-client provider and not
  inside the toast provider.
\<close>

theorem children_outside_toast_provider:
  "mounted_inside ''ConvexClientProvider'' (RootLayout ''inter'' ())
   \<and> \<not> mounted_inside ''ToastProvider'' (RootLayout ''inter'' ())"
  by (simp add: RootLayout_def mounted_inside_def)

text \<open>
  C9. The metadata of the layout: the default title is the site name, the title template
  is the placeholder \<^verbatim>\<open>%s\<close> followed by \<^verbatim>\<open> | \<close> and the site name, the description is the
  site's, and the icon is \<^verbatim>\<open>/favicon.ico\<close>.
\<close>

theorem metadata_fields:
  "title_default (title (metadata cfg)) = name cfg
   \<and> title_template (title (metadata cfg)) = ''%s'' @ '' | '' @ name cfg
   \<and> Metadata.description (metadata cfg) = siteConfig.description cfg
   \<and> icon (icons (metadata cfg)) = ''/favicon.ico''"
  by (simp add: metadata_def)

theorem metadata_fields_witness:
  "title_default (title (metadata \<lparr>name = ''Pool'', description = ''Money pooling''\<rparr>)) = ''Pool''
   \<and> title_template (title (metadata \<lparr>name = ''Pool'', description = ''Money pooling''\<rparr>))
       = ''%s | Pool''
   \<and> Metadata.description (metadata \<lparr>name = ''Pool'', description = ''Money pooling''\<rparr>)
       = ''Money pooling''
   \<and> icon (icons (metadata \<lparr>name = ''Pool'', description = ''Money pooling''\<rparr>))
       = ''/favicon.ico''"
  using metadata_fields [of "\<lparr>name = ''Pool'', description = ''Money pooling''\<rparr>"] by simp

section \<open>Writing, reading and index lookups\<close>

subsection \<open>The invariant of the store\<close>

lemma wf_db_empty: "wf_db empty_db"
  by (simp add: wf_db_def empty_db_def)

lemma db_insert_ok:
  assumes "validates sch t obj"
  shows "db_insert sch db t now obj =
     Inr (db(t := db t @ [\<lparr>doc_id = (t, length (db t)), creationTime = now, body = obj\<rparr>]),
          Ident t (length (db t)))"
  using assms by (simp add: db_insert_def)

lemma wf_db_insert:
  assumes "wf_db db"
  shows "wf_db (db(t := db t @ [\<lparr>doc_id = (t, length (db t)), creationTime = now, body = obj\<rparr>]))"
  using assms by (simp add: wf_db_def)

lemma wf_db_fresh:
  assumes "wf_db db" and "d \<in> set (db t)"
  shows "doc_id d \<noteq> (t, length (db t))"
proof -
  have "doc_id d \<in> set (map doc_id (db t))" using assms(2) by simp
  also have "map doc_id (db t) = map (Pair t) [0..<length (db t)]"
    using assms(1) by (simp add: wf_db_def)
  finally show ?thesis by auto
qed

lemma find_append_None:
  "find P xs = None \<Longrightarrow> find P (xs @ ys) = find P ys"
  by (induction xs) (auto split: if_splits)

lemma db_get_new:
  assumes "wf_db db"
  shows "db_get (db(t := db t @ [\<lparr>doc_id = (t, length (db t)), creationTime = now, body = obj\<rparr>]))
           (Ident t (length (db t)))
         = Some \<lparr>doc_id = (t, length (db t)), creationTime = now, body = obj\<rparr>"
proof -
  have "find (\<lambda>d. doc_id d = (t, length (db t))) (db t) = None"
    using wf_db_fresh [OF assms] by (auto simp: find_None_iff)
  then show ?thesis by (simp add: find_append_None)
qed

lemma get_field_user:
  assumes "map_of schema t = Some td" and "(k, fv) \<in> set (documentType td)"
  shows "get_field d k = map_of (body d) k"
proof -
  have "(t, td) \<in> set schema" using assms(1) by (rule map_of_SomeD)
  with schema_user_fields assms(2) have "k \<noteq> ''_id'' \<and> k \<noteq> ''_creationTime''"
    unfolding list_all_iff by fastforce
  then show ?thesis by (simp add: get_field_def)
qed

subsection \<open>Round trip\<close>

text \<open>
  C3. For every table of the schema and every record that passes its validation with all
  optional fields left out: the write succeeds, the store stays well formed, and reading
  the new document back gives every required field with the value that was written and
  every optional field as absent.
\<close>

theorem write_read_round_trip:
  fixes db :: "'n database"
  assumes "wf_db db" and "map_of schema t = Some td" and "validates schema t obj"
    and "\<forall>(k, fv) \<in> set (documentType td). is_optional fv \<longrightarrow> map_of obj k = None"
  shows "\<exists>db' i d. db_insert schema db t now obj = Inr (db', i) \<and> wf_db db'
           \<and> db_get db' i = Some d
           \<and> (\<forall>(k, fv) \<in> set (documentType td).
                 if is_optional fv then get_field d k = None
                 else get_field d k \<noteq> None \<and> get_field d k = map_of obj k)"
proof -
  let ?d = "\<lparr>doc_id = (t, length (db t)), creationTime = now, body = obj\<rparr>"
  let ?db = "db(t := db t @ [?d])"
  have fields: "if is_optional fv then get_field ?d k = None
                else get_field ?d k \<noteq> None \<and> get_field ?d k = map_of obj k"
    if kf: "(k, fv) \<in> set (documentType td)" for k fv
  proof -
    have g: "get_field ?d k = map_of obj k"
      using get_field_user [OF assms(2) kf, of ?d] by simp
    show ?thesis
    proof (cases "is_optional fv")
      case True
      with assms(4) kf g show ?thesis by auto
    next
      case False
      with validates_field [OF assms(3) assms(2) kf] g show ?thesis
        by (auto split: option.splits)
    qed
  qed
  have "db_insert schema db t now obj = Inr (?db, Ident t (length (db t)))"
    by (rule db_insert_ok [OF assms(3)])
  moreover have "wf_db ?db" by (rule wf_db_insert [OF assms(1)])
  moreover have "db_get ?db (Ident t (length (db t))) = Some ?d"
    by (rule db_get_new [OF assms(1)])
  ultimately show ?thesis using fields by blast
qed

theorem write_read_round_trip_witness:
  "\<exists>db' i d. db_insert schema empty_db ''games'' 7 game_open = Inr (db', i)
       \<and> db_get db' i = Some d
       \<and> get_field d ''tenantId'' = Some (Ident ''tenants'' 0)
       \<and> get_field d ''status'' = Some (Str ''Open'')
       \<and> get_field d ''participants'' = Some (Arr [])
       \<and> get_field d ''description'' = None
       \<and> get_field d ''winnerId'' = None"
proof -
  have opt: "\<forall>(k, fv) \<in> set (documentType games). is_optional fv \<longrightarrow> map_of game_open k = None"
    by (simp add: games_fields game_open_def gameStatus_def)
  from write_read_round_trip [OF wf_db_empty schema_games game_open_valid opt, of 7]
  obtain db' i d where ins: "db_insert schema empty_db ''games'' 7 game_open = Inr (db', i)"
    and get: "db_get db' i = Some d"
    and all: "\<forall>(k, fv) \<in> set (documentType games).
                 if is_optional fv then get_field d k = None
                 else get_field d k \<noteq> None \<and> get_field d k = map_of game_open k"
    by blast
  from all have "get_field d ''tenantId'' = Some (Ident ''tenants'' 0)"
    and "get_field d ''status'' = Some (Str ''Open'')"
    and "get_field d ''participants'' = Some (Arr [])"
    and "get_field d ''description'' = None"
    and "get_field d ''winnerId'' = None"
    by (simp_all add: games_fields game_open_def gameStatus_def)
  with ins get show ?thesis by blast
qed

subsection \<open>Index lookups\<close>

lemma withIndex_declared:
  assumes "map_of sch t = Some td" and "map_of (indexes td) ix = Some fs"
  shows "withIndex sch db t ix key = Inr (filter (\<lambda>d. map (get_field d) fs = key) (db t))"
  using assms by (simp add: withIndex_def)

lemma key_match:
  assumes "length key = length fs"
  shows "map (get_field d) fs = key \<longleftrightarrow> (\<forall>j<length fs. get_field d (fs ! j) = key ! j)"
  using assms by (auto simp: list_eq_iff_nth_eq)

lemma lookup_every_index:
  assumes "(t, td) \<in> set schema" and "(ix, fs) \<in> set (indexes td)"
    and "length key = length fs"
  shows "withIndex schema db t ix key =
     Inr (filter (\<lambda>d. \<forall>j<length fs. get_field d (fs ! j) = key ! j) (db t))"
  unfolding withIndex_declared [OF declared_index [OF assms(1,2)]]
  by (simp add: key_match [OF assms(3)])

lemma lookup_wallets:
  "withIndex schema db ''wallets'' ''by_ownerId_type'' [ow, ty] =
     Inr (filter (\<lambda>d. get_field d ''ownerId'' = ow \<and> get_field d ''type'' = ty)
            (db ''wallets''))"
proof -
  have ix: "map_of (indexes wallets) ''by_ownerId_type'' = Some [''ownerId'', ''type'']"
    by (simp add: wallets_indexes)
  show ?thesis unfolding withIndex_declared [OF schema_wallets ix] by simp
qed

lemma lookup_games:
  "withIndex schema db ''games'' ''by_tenantId_status'' [tn, st] =
     Inr (filter (\<lambda>d. get_field d ''tenantId'' = tn \<and> get_field d ''status'' = st)
            (db ''games''))"
proof -
  have ix: "map_of (indexes games) ''by_tenantId_status'' = Some [''tenantId'', ''status'']"
    by (simp add: games_indexes)
  show ?thesis unfolding withIndex_declared [OF schema_games ix] by simp
qed

lemma lookup_new_game:
  fixes db :: "'n database"
  assumes wf: "wf_db db" and ins: "db_insert schema db ''games'' now g = Inr (db', i)"
    and st: "map_of g ''status'' = Some (Str ''Open'')"
  shows "\<exists>d rows. db_get db' i = Some d \<and> body d = g
          \<and> withIndex schema db' ''games'' ''by_tenantId_status''
               [map_of g ''tenantId'', Some (Str ''Open'')] = Inr rows
          \<and> d \<in> set rows
          \<and> (\<forall>s. s \<noteq> Some (Str ''Open'') \<longrightarrow>
                (\<exists>rows'. withIndex schema db' ''games'' ''by_tenantId_status''
                            [map_of g ''tenantId'', s] = Inr rows'
                         \<and> d \<notin> set rows'))"
proof -
  let ?d = "\<lparr>doc_id = (''games'', length (db ''games'')), creationTime = now, body = g\<rparr>"
  have db': "db' = db(''games'' := db ''games'' @ [?d])"
    and i: "i = Ident ''games'' (length (db ''games''))"
    using ins by (auto simp: db_insert_def split: if_splits)
  have get: "db_get db' i = Some ?d"
    unfolding db' i by (rule db_get_new [OF wf])
  have tn: "get_field ?d ''tenantId'' = map_of g ''tenantId''"
    and stat: "get_field ?d ''status'' = Some (Str ''Open'')"
    using st by (simp_all add: get_field_def)
  have mem: "?d \<in> set (db' ''games'')" by (simp add: db')
  show ?thesis
    using get tn stat mem unfolding lookup_games by auto
qed

text \<open>
  C1. For every index that the schema declares on a table, a lookup by a key tuple of the
  index's length returns exactly the documents of the table whose index fields equal the
  key component by component. On wallets, \<^verbatim>\<open>by_ownerId_type\<close> with an owner and a type
  returns the wallets that match both. A game written with status "Open" is found
  through \<^verbatim>\<open>by_tenantId_status\<close> under its tenant and "Open", and is not among the results
  for its tenant and any other status.
\<close>

theorem index_lookup_exact_key:
  fixes db :: "'n database"
  shows
  "((t, td) \<in> set schema \<and> (ix, fs) \<in> set (indexes td) \<and> length key = length fs \<longrightarrow>
      withIndex schema db t ix key =
        Inr (filter (\<lambda>d. \<forall>j<length fs. get_field d (fs ! j) = key ! j) (db t)))
   \<and> withIndex schema db ''wallets'' ''by_ownerId_type'' [ow, ty] =
        Inr (filter (\<lambda>d. get_field d ''ownerId'' = ow \<and> get_field d ''type'' = ty)
               (db ''wallets''))
   \<and> (wf_db db \<and> db_insert schema db ''games'' now g = Inr (db', i)
        \<and> map_of g ''status'' = Some (Str ''Open'') \<longrightarrow>
        (\<exists>d rows. db_get db' i = Some d \<and> body d = g
           \<and> withIndex schema db' ''games'' ''by_tenantId_status''
                [map_of g ''tenantId'', Some (Str ''Open'')] = Inr rows
           \<and> d \<in> set rows
           \<and> (\<forall>s. s \<noteq> Some (Str ''Open'') \<longrightarrow>
                 (\<exists>rows'. withIndex schema db' ''games'' ''by_tenantId_status''
                             [map_of g ''tenantId'', s] = Inr rows'
                          \<and> d \<notin> set rows'))))"
proof (intro conjI impI)
  assume "(t, td) \<in> set schema \<and> (ix, fs) \<in> set (indexes td) \<and> length key = length fs"
  then show "withIndex schema db t ix key =
        Inr (filter (\<lambda>d. \<forall>j<length fs. get_field d (fs ! j) = key ! j) (db t))"
    using lookup_every_index [of t td ix fs key db] by simp
next
  show "withIndex schema db ''wallets'' ''by_ownerId_type'' [ow, ty] =
        Inr (filter (\<lambda>d. get_field d ''ownerId'' = ow \<and> get_field d ''type'' = ty)
               (db ''wallets''))"
    by (rule lookup_wallets)
next
  assume "wf_db db \<and> db_insert schema db ''games'' now g = Inr (db', i)
        \<and> map_of g ''status'' = Some (Str ''Open'')"
  then show "\<exists>d rows. db_get db' i = Some d \<and> body d = g
           \<and> withIndex schema db' ''games'' ''by_tenantId_status''
                [map_of g ''tenantId'', Some (Str ''Open'')] = Inr rows
           \<and> d \<in> set rows
           \<and> (\<forall>s. s \<noteq> Some (Str ''Open'') \<longrightarrow>
                 (\<exists>rows'. withIndex schema db' ''games'' ''by_tenantId_status''
                             [map_of g ''tenantId'', s] = Inr rows'
                          \<and> d \<notin> set rows'))"
    using lookup_new_game [of db now g db' i] by simp
qed

text \<open>
  The scenario of the spec: a tenant, a user of that tenant and an open game of that
  tenant are written in turn; the game is found under its tenant and "Open" and not
  under its tenant and "Pending".
\<close>

theorem index_lookup_exact_key_witness:
  "\<exists>db1 tn db2 u db3 gm d rows others.
      db_insert schema empty_db ''tenants'' 1 tenant_pending = Inr (db1, tn)
    \<and> db_insert schema db1 ''users'' 2 user_regular = Inr (db2, u)
    \<and> db_insert schema db2 ''games'' 3 game_open = Inr (db3, gm)
    \<and> map_of user_regular ''tenantId'' = Some tn
    \<and> map_of game_open ''tenantId'' = Some tn
    \<and> db_get db3 gm = Some d
    \<and> body d = game_open
    \<and> withIndex schema db3 ''games'' ''by_tenantId_status''
         [Some tn, Some (Str ''Open'')] = Inr rows
    \<and> d \<in> set rows
    \<and> withIndex schema db3 ''games'' ''by_tenantId_status''
         [Some tn, Some (Str ''Pending'')] = Inr others
    \<and> d \<notin> set others"
proof -
  let ?t = "\<lparr>doc_id = (''tenants'', 0), creationTime = 1::int, body = tenant_pending\<rparr>"
  let ?u = "\<lparr>doc_id = (''users'', 0), creationTime = 2::int, body = user_regular\<rparr>"
  let ?g = "\<lparr>doc_id = (''games'', 0), creationTime = 3::int, body = game_open\<rparr>"
  let ?db1 = "empty_db(''tenants'' := [?t])"
  let ?db2 = "?db1(''users'' := [?u])"
  let ?db3 = "?db2(''games'' := [?g])"
  have i1: "db_insert schema empty_db ''tenants'' 1 tenant_pending
              = Inr (?db1, Ident ''tenants'' 0)"
    using db_insert_ok [OF tenant_pending_valid, of empty_db 1] by (simp add: empty_db_def)
  have i2: "db_insert schema ?db1 ''users'' 2 user_regular = Inr (?db2, Ident ''users'' 0)"
    using db_insert_ok [OF user_regular_valid, of ?db1 2] by (simp add: empty_db_def)
  have i3: "db_insert schema ?db2 ''games'' 3 game_open = Inr (?db3, Ident ''games'' 0)"
    using db_insert_ok [OF game_open_valid, of ?db2 3] by (simp add: empty_db_def)
  have wf: "wf_db ?db2"
    using wf_db_insert [OF wf_db_insert [OF wf_db_empty, of "''tenants''" 1 tenant_pending],
        of "''users''" 2 user_regular]
    by (simp add: empty_db_def)
  have st: "map_of game_open ''status'' = Some (Str ''Open'')"
    and tn: "map_of game_open ''tenantId'' = Some (Ident ''tenants'' 0)"
    and un: "map_of user_regular ''tenantId'' = Some (Ident ''tenants'' 0)"
    by (simp_all add: game_open_def user_regular_def)
  have pre: "wf_db ?db2 \<and> db_insert schema ?db2 ''games'' 3 game_open
                 = Inr (?db3, Ident ''games'' 0)
             \<and> map_of game_open ''status'' = Some (Str ''Open'')"
    using wf i3 st by simp
  from index_lookup_exact_key [where db = ?db2 and now = 3 and g = game_open and db' = ?db3
      and i = "Ident ''games'' 0", THEN conjunct2, THEN conjunct2, THEN mp, OF pre]
  obtain d rows where d: "db_get ?db3 (Ident ''games'' 0) = Some d" "body d = game_open"
    and r: "withIndex schema ?db3 ''games'' ''by_tenantId_status''
              [map_of game_open ''tenantId'', Some (Str ''Open'')] = Inr rows" "d \<in> set rows"
    and o: "\<forall>s. s \<noteq> Some (Str ''Open'') \<longrightarrow>
              (\<exists>rows'. withIndex schema ?db3 ''games'' ''by_tenantId_status''
                          [map_of game_open ''tenantId'', s] = Inr rows' \<and> d \<notin> set rows')"
    by (elim exE conjE) (rule that)
  have ne: "Some (Str ''Pending'') \<noteq> Some (Str ''Open'' :: int val)" by simp
  from o [rule_format, OF ne] obtain others where ot:
    "withIndex schema ?db3 ''games'' ''by_tenantId_status''
       [map_of game_open ''tenantId'', Some (Str ''Pending'')] = Inr others" "d \<notin> set others"
    by (elim exE conjE) (rule that)
  have "db_insert schema empty_db ''tenants'' 1 tenant_pending = Inr (?db1, Ident ''tenants'' 0)
    \<and> db_insert schema ?db1 ''users'' 2 user_regular = Inr (?db2, Ident ''users'' 0)
    \<and> db_insert schema ?db2 ''games'' 3 game_open = Inr (?db3, Ident ''games'' 0)
    \<and> map_of user_regular ''tenantId'' = Some (Ident ''tenants'' 0)
    \<and> map_of game_open ''tenantId'' = Some (Ident ''tenants'' 0)
    \<and> db_get ?db3 (Ident ''games'' 0) = Some d
    \<and> body d = game_open
    \<and> withIndex schema ?db3 ''games'' ''by_tenantId_status''
         [Some (Ident ''tenants'' 0), Some (Str ''Open'')] = Inr rows
    \<and> d \<in> set rows
    \<and> withIndex schema ?db3 ''games'' ''by_tenantId_status''
         [Some (Ident ''tenants'' 0), Some (Str ''Pending'')] = Inr others
    \<and> d \<notin> set others"
    using i1 i2 i3 un tn d r ot unfolding tn by (intro conjI)
  then show ?thesis by (intro exI)
qed

end
